theory Spec2Isabelle
  imports Main "HOL-Library.Multiset" "HOL-Library.AList" "HOL-Library.List_Lexorder" "HOL-Library.Product_Lexorder"
begin

section \<open>Timeline pane: the merged item list\<close>

text \<open>
  The development embeds the request, cursor and item bookkeeping of
  \<^verbatim>\<open>src/vs/workbench/contrib/timeline/browser/timelinePane.ts\<close>.
  The class \<^verbatim>\<open>TimelinePane\<close> mutates its private fields in place; here every
  method takes the fields it reads and returns the ones it writes.
\<close>

subsection \<open>Tree elements\<close>

text \<open>
  \<^verbatim>\<open>TreeElement = TimelineItem | CommandItem\<close>. Both shapes carry \<^verbatim>\<open>handle\<close>,
  \<^verbatim>\<open>timestamp\<close>, \<^verbatim>\<open>source\<close> and \<^verbatim>\<open>id\<close> (the last two are \<^verbatim>\<open>undefined\<close> on a
  \<^verbatim>\<open>CommandItem\<close>), so one record serves for both; \<^verbatim>\<open>undefined\<close> is \<open>None\<close>.
  The field \<^verbatim>\<open>id\<close> is called \<open>item_id\<close> because \<open>id\<close> is the identity function of HOL.
  A \<^verbatim>\<open>timestamp\<close> is a JavaScript number; the model takes the integers.
\<close>

record element =
  handle :: string
  source :: "string option"
  timestamp :: int
  item_id :: "string option"
  themeIcon :: "string option"
  label :: string

definition SubsequentPageSize :: nat where
  "SubsequentPageSize = 40"

definition InitialPageSize :: nat where
  "InitialPageSize = 20"

definition isLoadMoreCommandItem :: "element option \<Rightarrow> bool" where
  "isLoadMoreCommandItem item =
     (case item of None \<Rightarrow> False | Some e \<Rightarrow> handle e = ''vscode-command:loadMore'')"

text \<open>The element pushed at line 416: only \<^verbatim>\<open>handle\<close>, \<^verbatim>\<open>label\<close> and \<^verbatim>\<open>timestamp\<close> are set.\<close>

definition loadMoreItem :: element where
  "loadMoreItem =
     \<lparr>handle = ''vscode-command:loadMore'', source = None, timestamp = 0,
      item_id = None, themeIcon = None, label = ''Load more''\<rparr>"

subsection \<open>\<^verbatim>\<open>sortItems\<close>\<close>

text \<open>
  \<^verbatim>\<open>String.prototype.localeCompare\<close> belongs to the platform, not to this file, and is
  the parameter \<open>lc\<close> of everything that sorts: \<open>lc s t options\<close> is
  \<^verbatim>\<open>s.localeCompare(t, undefined, options)\<close>. What the pane decides is the options it
  passes, line 509: \<^verbatim>\<open>{ numeric: true, sensitivity: 'base' }\<close>, by which the platform
  compares runs of digits as numbers and ignores case and accents.
\<close>

record compareOptions =
  numeric :: bool
  sensitivity :: string

type_synonym comparison = "string \<Rightarrow> string \<Rightarrow> compareOptions \<Rightarrow> int"

definition sortOptions :: compareOptions where
  "sortOptions = \<lparr>numeric = True, sensitivity = ''base''\<rparr>"

text \<open>
  The comparator handed to \<^verbatim>\<open>Array.prototype.sort\<close>. In JavaScript \<^verbatim>\<open>x || y\<close> is
  \<^verbatim>\<open>x\<close> unless \<^verbatim>\<open>x\<close> is zero.
\<close>

definition compareItems :: "comparison \<Rightarrow> element \<Rightarrow> element \<Rightarrow> int" where
  "compareItems lc a b =
     (if timestamp b - timestamp a \<noteq> 0 then timestamp b - timestamp a
      else (case source a of
              None \<Rightarrow> (case source b of None \<Rightarrow> 0 | Some sb \<Rightarrow> 1)
            | Some sa \<Rightarrow> (case source b of None \<Rightarrow> - 1
                          | Some sb \<Rightarrow> lc sb sa sortOptions)))"

text \<open>
  \<^verbatim>\<open>Array.prototype.sort\<close> is stable and, for a consistent comparator, returns the
  elements in an order where no element compares greater than a later one. That result
  is unique, so a stable insertion sort computes it: \<open>x\<close> goes in front of the first
  element it does not compare greater than.
\<close>

fun insertItem :: "('a \<Rightarrow> 'a \<Rightarrow> int) \<Rightarrow> 'a \<Rightarrow> 'a list \<Rightarrow> 'a list" where
  "insertItem cmp x [] = [x]"
| "insertItem cmp x (y # ys) =
     (if cmp x y \<le> 0 then x # y # ys else y # insertItem cmp x ys)"

fun sortWith :: "('a \<Rightarrow> 'a \<Rightarrow> int) \<Rightarrow> 'a list \<Rightarrow> 'a list" where
  "sortWith cmp [] = []"
| "sortWith cmp (x # xs) = insertItem cmp x (sortWith cmp xs)"

definition sortItems :: "comparison \<Rightarrow> element list \<Rightarrow> element list" where
  "sortItems lc xs = sortWith (compareItems lc) xs"

text \<open>
  What the ECMAScript specification asks of a comparator for the order of the result to
  be defined: it is reflexive, antisymmetric in sign, and transitive.
\<close>

definition consistentComparator :: "('a \<Rightarrow> 'a \<Rightarrow> int) \<Rightarrow> bool" where
  "consistentComparator cmp =
     ((\<forall>a. cmp a a = 0) \<and>
      (\<forall>a b. (cmp a b < 0) = (0 < cmp b a)) \<and>
      (\<forall>a b c. cmp a b \<le> 0 \<and> cmp b c \<le> 0 \<longrightarrow> cmp a c \<le> 0))"

subsection \<open>An instance of the parameter \<open>lc\<close>\<close>

text \<open>
  The general theorems hold for every \<open>lc\<close>. To run the model on concrete lists the
  parameter needs a value, and \<open>asciiCompare\<close> is one: letters compare without case, a
  run of digits compares as the number it writes, and a number sorts before a letter.
  Each string becomes a list of tokens, \<open>(0, n)\<close> for a number and \<open>(1, c)\<close> for a
  character code, compared lexicographically. It is not the platform's comparison: it
  places every other character by its code, where the platform follows its collation
  table, and it does not look at the options. On the two source names of the examples,
  \<open>git\<close> and \<open>Local\<close>, both give the same answer, \<open>git\<close> first.
\<close>

definition isDigit :: "char \<Rightarrow> bool" where
  "isDigit c = (48 \<le> (of_char c :: nat) \<and> (of_char c :: nat) \<le> 57)"

definition lowerCode :: "char \<Rightarrow> nat" where
  "lowerCode c =
     (if 65 \<le> (of_char c :: nat) \<and> (of_char c :: nat) \<le> 90
      then of_char c + 32 else of_char c)"

fun asciiKey :: "nat option \<Rightarrow> string \<Rightarrow> (nat \<times> nat) list" where
  "asciiKey None [] = []"
| "asciiKey (Some n) [] = [(0, n)]"
| "asciiKey acc (c # cs) =
     (if isDigit c
      then asciiKey
             (Some (10 * (case acc of None \<Rightarrow> 0 | Some n \<Rightarrow> n) + (of_char c - 48))) cs
      else (case acc of None \<Rightarrow> [] | Some n \<Rightarrow> [(0, n)])
             @ (1, lowerCode c) # asciiKey None cs)"

definition asciiCompare :: comparison where
  "asciiCompare s t options =
     (if asciiKey None s < asciiKey None t then - 1
      else if asciiKey None s = asciiKey None t then 0 else 1)"

subsection \<open>\<^verbatim>\<open>mergeItems\<close>\<close>

text \<open>
  \<^verbatim>\<open>TimelineOptions\<close>: \<^verbatim>\<open>cursor?: string\<close>, \<^verbatim>\<open>before?: boolean\<close> and
  \<^verbatim>\<open>limit?: number | string\<close> (line 324 can put a cursor there).
\<close>

datatype limit = LimitNumber nat | LimitCursor string

record timelineOptions =
  cursor :: "string option"
  before :: "bool option"
  limit :: "limit option"

text \<open>\<^verbatim>\<open>options.before\<close> in a condition: \<^verbatim>\<open>undefined\<close> and \<^verbatim>\<open>false\<close> are both falsy.\<close>

definition isBefore :: "timelineOptions \<Rightarrow> bool" where
  "isBefore options = (before options = Some True)"

text \<open>
  Lines 447 to 457: the two sets of incoming identities. The sets hold JavaScript
  values, so an element is \<open>Some v\<close> for a defined value and \<open>None\<close> for \<^verbatim>\<open>undefined\<close>;
  the loop only ever adds defined values.
\<close>

fun incomingIds :: "element list \<Rightarrow> string option set \<times> int option set
                     \<Rightarrow> string option set \<times> int option set" where
  "incomingIds [] (ids, timestamps) = (ids, timestamps)"
| "incomingIds (item # rest) (ids, timestamps) =
     (if item_id item = None
      then incomingIds rest (ids, insert (Some (timestamp item)) timestamps)
      else incomingIds rest (insert (item_id item) ids, timestamps))"

text \<open>
  The test of lines 465 to 468, as written: \<^verbatim>\<open>item.id === undefined && ids.has(item.id)\<close>
  or \<^verbatim>\<open>item.timestamp === undefined && timestamps.has(item.timestamp)\<close>. The value of
  \<^verbatim>\<open>item.timestamp\<close> is the defined number \<open>Some (timestamp item)\<close>.
\<close>

definition isDuplicate :: "string option set \<Rightarrow> int option set \<Rightarrow> element \<Rightarrow> bool" where
  "isDuplicate ids timestamps item =
     ((item_id item = None \<and> item_id item \<in> ids) \<or>
      (Some (timestamp item) = None \<and> Some (timestamp item) \<in> timestamps))"

text \<open>\<^verbatim>\<open>this._items.splice(i, 1)\<close>.\<close>

definition spliceOut :: "nat \<Rightarrow> 'a list \<Rightarrow> 'a list" where
  "spliceOut i xs = take i xs @ drop (Suc i) xs"

text \<open>
  \<^verbatim>\<open>while (i--) { ... }\<close>: the body runs with \<open>i - 1\<close> down to \<open>0\<close>. The index stays in
  range, since a removal at \<open>i\<close> leaves the positions below \<open>i\<close> in place.
\<close>

fun removeDuplicates :: "nat \<Rightarrow> string option set \<Rightarrow> int option set
                          \<Rightarrow> element list \<Rightarrow> element list" where
  "removeDuplicates 0 ids timestamps xs = xs"
| "removeDuplicates (Suc i) ids timestamps xs =
     removeDuplicates i ids timestamps
       (if isDuplicate ids timestamps (xs ! i) then spliceOut i xs else xs)"

text \<open>
  \<^verbatim>\<open>mergeItems(source, items, options)\<close> returns the boolean and leaves the new list
  in \<^verbatim>\<open>this._items\<close>; the argument \<^verbatim>\<open>source\<close> is not read.
\<close>

definition mergeItems :: "comparison \<Rightarrow> element list \<Rightarrow> string
                          \<Rightarrow> element list option \<Rightarrow> timelineOptions \<Rightarrow> bool \<times> element list" where
  "mergeItems lc xs src incoming options =
     (case incoming of
        None \<Rightarrow> (False, xs)
      | Some new \<Rightarrow>
          if length new = 0 then (False, xs)
          else if isBefore options
          then (case incomingIds new ({}, {}) of
                  (ids, timestamps) \<Rightarrow>
                    (True, sortItems lc
                       (new @ removeDuplicates (min SubsequentPageSize (length xs))
                                ids timestamps xs)))
          else (True, sortItems lc (xs @ new)))"

subsection \<open>\<^verbatim>\<open>replaceItems\<close>\<close>

text \<open>
  \<^verbatim>\<open>items?.length\<close> is falsy for \<^verbatim>\<open>undefined\<close> and for the empty array alike, so both
  take the second half of the method.
\<close>

definition itemsOrEmpty :: "element list option \<Rightarrow> element list" where
  "itemsOrEmpty incoming = (case incoming of None \<Rightarrow> [] | Some new \<Rightarrow> new)"

definition replaceItems :: "comparison \<Rightarrow> element list \<Rightarrow> string
                            \<Rightarrow> element list option \<Rightarrow> bool \<times> element list" where
  "replaceItems lc xs src incoming =
     (let new = itemsOrEmpty incoming
      in if length new \<noteq> 0
         then (True, sortItems lc (filter (\<lambda>item. source item \<noteq> Some src) xs @ new))
         else if length xs \<noteq> 0 \<and> list_ex (\<lambda>item. source item = Some src) xs
         then (True, filter (\<lambda>item. source item \<noteq> Some src) xs)
         else (False, xs))"

section \<open>Timeline pane: cursors, requests and the pane's state\<close>

subsection \<open>Pages and cursors\<close>

text \<open>
  A JavaScript \<^verbatim>\<open>Map\<close> keeps its entries in the order of their first insertion, and
  \<^verbatim>\<open>values()\<close> walks them in that order. The two tables of the pane are association
  lists: \<^verbatim>\<open>get\<close> is \<open>map_of\<close>, \<^verbatim>\<open>set\<close> is \<open>AList.update\<close> (an existing key keeps its
  place, a new one goes to the end), \<^verbatim>\<open>delete\<close> is \<open>AList.delete\<close>, and \<^verbatim>\<open>size\<close> is
  the length.
\<close>

text \<open>
  \<^verbatim>\<open>TimelineCursors\<close> is declared at line 82. A cursor is an opaque value
  (\<^verbatim>\<open>any\<close>); the model takes strings, as \<^verbatim>\<open>TimelineOptions.cursor\<close> does. The
  field \<^verbatim>\<open>more\<close> is \<open>c_more\<close> (the record package keeps the name \<open>more\<close> for itself),
  and \<^verbatim>\<open>paging.more\<close> is \<open>p_more\<close>.
\<close>

record cursorPair =
  c_before :: string
  c_after :: "string option"

record timelineCursors =
  startCursors :: "cursorPair option"
  endCursors :: "cursorPair option"
  c_more :: bool

text \<open>
  Modelled from the spec: the type \<^verbatim>\<open>Timeline\<close> of
  \<^verbatim>\<open>vs/workbench/contrib/timeline/common/timeline\<close>, which is not among the sources. The
  spec gives a page as \<^verbatim>\<open>{ items: TimelineItem[], source, paging?: { cursors, more? } }\<close>.
  For such a page the fallbacks \<^verbatim>\<open>timeline.source ?? source\<close> (line 364) and
  \<^verbatim>\<open>timeline.items ?? []\<close> (line 387) are never taken.
\<close>

record paging =
  cursors :: cursorPair
  p_more :: "bool option"

record timeline =
  tl_source :: string
  tl_items :: "element list"
  tl_paging :: "paging option"

text \<open>
  Lines 362 to 386, on the cursor table alone. The \<^verbatim>\<open>else\<close> of line 384 is kept as
  written, for a \<^verbatim>\<open>timeline\<close> that is \<^verbatim>\<open>undefined\<close>. The object read from the table
  is updated in place, so the entry under \<^verbatim>\<open>timeline.source\<close> changes.
\<close>

definition recordPaging :: "(string \<times> timelineCursors) list \<Rightarrow> string \<Rightarrow> timelineOptions
                            \<Rightarrow> timeline option \<Rightarrow> (string \<times> timelineCursors) list" where
  "recordPaging table src options page =
     (case page of
        Some t \<Rightarrow>
          (case tl_paging t of
             None \<Rightarrow> table
           | Some p \<Rightarrow>
               (case map_of table (tl_source t) of
                  None \<Rightarrow>
                    AList.update (tl_source t)
                      \<lparr>startCursors = Some (cursors p), endCursors = None,
                       c_more = (case p_more p of None \<Rightarrow> False | Some m \<Rightarrow> m)\<rparr>
                      table
                | Some c \<Rightarrow>
                    AList.update (tl_source t)
                      (if isBefore options
                       then c\<lparr>endCursors :=
                                (if endCursors c = None then startCursors c else endCursors c),
                              startCursors := Some (cursors p),
                              c_more := (case p_more p of None \<Rightarrow> True | Some m \<Rightarrow> m)\<rparr>
                       else c\<lparr>startCursors :=
                                (if startCursors c = None then Some (cursors p)
                                 else startCursors c),
                              endCursors := Some (cursors p),
                              c_more := (case p_more p of None \<Rightarrow> True | Some m \<Rightarrow> m)\<rparr>)
                      table))
      | None \<Rightarrow> AList.delete src table)"

subsection \<open>Requests and cancellation\<close>

text \<open>
  A \<^verbatim>\<open>URI\<close> is an object: \<^verbatim>\<open>request.uri !== this._uri\<close> (line 353) compares
  references, so the model gives each object its identity \<open>uri_ref\<close>.
\<close>

record resourceUri =
  uri_ref :: nat
  scheme :: string

text \<open>
  Modelled from the spec: \<^verbatim>\<open>TimelineRequest\<close> of
  \<^verbatim>\<open>vs/workbench/contrib/timeline/common/timeline\<close>, not among the sources: "request
  handle carrying the source id, the target resource identifier at issue time, the
  cancellation token, and a future/promise of the result". The options of the request
  are read at lines 369 and 392. The token source is a shared object, held here by
  reference; the promise is the \<open>outcome\<close> a completion arrives with.
\<close>

record timelineRequest =
  req_source :: string
  req_uri :: resourceUri
  req_options :: timelineOptions
  req_tokenSource :: nat

text \<open>
  Modelled from the spec: \<^verbatim>\<open>CancellationTokenSource\<close> of
  \<^verbatim>\<open>vs/base/common/cancellation\<close>, not among the sources. "Cancellation is token-based
  and cooperative": a token has a triggered state, read by completion handlers, and
  cancelling triggers it once and runs the callbacks registered with
  \<^verbatim>\<open>onCancellationRequested\<close>. Every callback this file registers is
  \<^verbatim>\<open>() => this._pendingRequests.delete(source)\<close>, so a callback is the source it deletes.
\<close>

record cancellationTokenSource =
  isCancellationRequested :: bool
  listeners :: "string list"

datatype outcome = Fulfilled "timeline option" | Rejected

subsection \<open>The fields of \<^verbatim>\<open>TimelinePane\<close>\<close>

text \<open>
  Lines 100 to 105 and 184, with three fields of the model's own: \<open>tokenSources\<close> is
  the store of the token source objects and \<open>nextTokenSource\<close> the next free
  reference; \<open>treeChildren\<close> is the last argument of \<^verbatim>\<open>_tree.setChildren\<close>;
  \<open>refreshScheduled\<close> says that the debounced refresh is waiting. A running
  \<^verbatim>\<open>_loadingMessageTimer\<close> is the \<^verbatim>\<open>uri\<close> it was started with.
\<close>

record pane =
  excludedSources :: "string set"
  cursorsByProvider :: "(string \<times> timelineCursors) list"
  items :: "element list"
  loadingMessageTimer :: "resourceUri option"
  pendingRequests :: "(string \<times> timelineRequest) list"
  uri :: "resourceUri option"
  message :: "string option"
  treeChildren :: "element list option"
  refreshScheduled :: bool
  tokenSources :: "nat \<Rightarrow> cancellationTokenSource"
  nextTokenSource :: nat

definition refresh :: "pane \<Rightarrow> pane" where
  "refresh st =
     st\<lparr>loadingMessageTimer := None,
        message := (if length (items st) = 0
                    then Some ''No timeline information was provided.'' else None),
        treeChildren := Some (items st)\<rparr>"

text \<open>\<^verbatim>\<open>@debounce(500)\<close>: the call only arms the timer.\<close>

definition refreshDebounced :: "pane \<Rightarrow> pane" where
  "refreshDebounced st = st\<lparr>refreshScheduled := True\<rparr>"

text \<open>\<^verbatim>\<open>tokenSource.dispose(true)\<close>.\<close>

definition disposeCancel :: "nat \<Rightarrow> pane \<Rightarrow> pane" where
  "disposeCancel t st =
     (if isCancellationRequested (tokenSources st t) then st
      else st\<lparr>tokenSources :=
                 (tokenSources st)
                   (t := \<lparr>isCancellationRequested = True, listeners = []\<rparr>),
               pendingRequests :=
                 fold AList.delete (listeners (tokenSources st t)) (pendingRequests st)\<rparr>)"

text \<open>\<^verbatim>\<open>new CancellationTokenSource()\<close>: the reference of the new object and the new store.\<close>

definition newTokenSource :: "pane \<Rightarrow> nat \<times> pane" where
  "newTokenSource st =
     (nextTokenSource st,
      st\<lparr>tokenSources :=
           (tokenSources st)
             (nextTokenSource st := \<lparr>isCancellationRequested = False, listeners = []\<rparr>),
         nextTokenSource := Suc (nextTokenSource st)\<rparr>)"

text \<open>\<^verbatim>\<open>tokenSource.token.onCancellationRequested(() => this._pendingRequests.delete(source))\<close>.\<close>

definition onCancellationRequested :: "nat \<Rightarrow> string \<Rightarrow> pane \<Rightarrow> pane" where
  "onCancellationRequested t src st =
     st\<lparr>tokenSources :=
          (tokenSources st)
            (t := (tokenSources st t)\<lparr>listeners := listeners (tokenSources st t) @ [src]\<rparr>)\<rparr>"

subsection \<open>\<^verbatim>\<open>handleRequest\<close>\<close>

text \<open>A cursor in a condition (line 392): \<^verbatim>\<open>undefined\<close> and the empty string are falsy.\<close>

definition truthy :: "string option \<Rightarrow> bool" where
  "truthy c = (case c of None \<Rightarrow> False | Some v \<Rightarrow> length v \<noteq> 0)"

text \<open>
  Lines 407 to 430, the load-more entry at the end of the list. The caller has checked
  that the list is not empty.
\<close>

definition updateLoadMore :: "timeline \<Rightarrow> pane \<Rightarrow> pane" where
  "updateLoadMore t st =
     (let lastIndex = length (items st) - 1;
          lastItem = items st ! lastIndex
      in if (case tl_paging t of None \<Rightarrow> False | Some p \<Rightarrow> p_more p = Some True)
            \<or> list_ex (\<lambda>entry. c_more (snd entry)) (cursorsByProvider st)
         then if isLoadMoreCommandItem (Some lastItem)
              then st\<lparr>items := (items st)[lastIndex := lastItem\<lparr>themeIcon := None\<rparr>]\<rparr>
              else st\<lparr>items := items st @ [loadMoreItem]\<rparr>
         else if isLoadMoreCommandItem (Some lastItem)
              then st\<lparr>items := spliceOut lastIndex (items st)\<rparr>
              else st)"

text \<open>
  A call of \<^verbatim>\<open>handleRequest\<close> ends by returning or by throwing; the fields keep what
  was written before the throw.
\<close>

datatype handled = Returned pane | Thrown pane

fun paneOf :: "handled \<Rightarrow> pane" where
  "paneOf (Returned st) = st"
| "paneOf (Thrown st) = st"

text \<open>Lines 391 to 396: a request that carried a cursor is merged, any other replaces.\<close>

definition applyItems :: "comparison \<Rightarrow> timelineRequest \<Rightarrow> element list
                          \<Rightarrow> element list \<Rightarrow> bool \<times> element list" where
  "applyItems lc request new xs =
     (if truthy (cursor (req_options request))
      then mergeItems lc xs (req_source request) (Some new) (req_options request)
      else replaceItems lc xs (req_source request) (Some new))"

text \<open>
  Lines 358 to 438, after the guard of line 350. For \<^verbatim>\<open>timeline === undefined\<close> the
  code as written deletes the cursor entry and then reads \<^verbatim>\<open>timeline.items\<close>, a
  \<^verbatim>\<open>TypeError\<close>.
\<close>

definition applyTimeline :: "comparison \<Rightarrow> timelineRequest
                            \<Rightarrow> timeline option \<Rightarrow> pane \<Rightarrow> handled" where
  "applyTimeline lc request page st =
     (let st1 = st\<lparr>cursorsByProvider :=
                    recordPaging (cursorsByProvider st) (req_source request)
                      (req_options request) page\<rparr>
      in case page of
           None \<Rightarrow> Thrown st1
         | Some t \<Rightarrow>
             (let alreadyHadItems = (length (items st1) \<noteq> 0);
                  result = applyItems lc request (tl_items t) (items st1);
                  changed = fst result;
                  st2 = st1\<lparr>items := snd result\<rparr>
              in if \<not> changed
                 then (if length (items st2) = 0 \<and> length (pendingRequests st2) = 0
                       then Returned (refresh st2) else Returned st2)
                 else (let st3 = (if length (pendingRequests st2) = 0
                                     \<and> length (items st2) \<noteq> 0
                                  then updateLoadMore t st2 else st2)
                       in if alreadyHadItems \<and> length (pendingRequests st3) \<noteq> 0
                          then Returned (refreshDebounced st3)
                          else Returned (refresh st3))))"

text \<open>
  \<^verbatim>\<open>handleRequest(request)\<close> from the moment \<^verbatim>\<open>request.result\<close> settles with
  \<open>outcome\<close>. The \<^verbatim>\<open>finally\<close> of line 346 runs on both paths; a rejection then leaves
  the method.
\<close>

definition handleRequest :: "comparison \<Rightarrow> timelineRequest \<Rightarrow> outcome
                            \<Rightarrow> pane \<Rightarrow> handled" where
  "handleRequest lc request result st =
     (let st1 = st\<lparr>pendingRequests := AList.delete (req_source request) (pendingRequests st)\<rparr>
      in case result of
           Rejected \<Rightarrow> Thrown st1
         | Fulfilled page \<Rightarrow>
             if page = None
                \<or> isCancellationRequested (tokenSources st1 (req_tokenSource request))
                \<or> Some (uri_ref (req_uri request)) \<noteq> map_option uri_ref (uri st1)
             then Returned st1
             else applyTimeline lc request page st1)"

subsection \<open>\<^verbatim>\<open>loadTimeline\<close>\<close>

text \<open>
  Modelled from the spec: \<^verbatim>\<open>ITimelineService\<close> of
  \<^verbatim>\<open>vs/workbench/contrib/timeline/common/timeline\<close>, not among the sources. The pane
  "consumes a provided, possibly-changing source identifier list" (\<^verbatim>\<open>getSources()\<close>),
  and \<^verbatim>\<open>getTimeline\<close> issues a request carrying the source, the resource, the options
  and the token source it was given, or answers \<^verbatim>\<open>undefined\<close> (lines 309 and 329) when
  the service has no provider of that source for the resource.
\<close>

record timelineService =
  getSources :: "string list"
  hasProvider :: "string \<Rightarrow> resourceUri \<Rightarrow> bool"

definition getTimeline :: "timelineService \<Rightarrow> string \<Rightarrow> resourceUri \<Rightarrow> timelineOptions
                           \<Rightarrow> nat \<Rightarrow> timelineRequest option" where
  "getTimeline svc src u options t =
     (if hasProvider svc src u
      then Some \<lparr>req_source = src, req_uri = u, req_options = options, req_tokenSource = t\<rparr>
      else None)"

text \<open>\<^verbatim>\<open>options.limit === 0 ? undefined : options.limit ?? defaultPageSize\<close> (line 304).\<close>

definition limitOr :: "timelineOptions \<Rightarrow> nat \<Rightarrow> limit option" where
  "limitOr options defaultPageSize =
     (case limit options of
        None \<Rightarrow> Some (LimitNumber defaultPageSize)
      | Some l \<Rightarrow> if l = LimitNumber 0 then None else Some l)"

text \<open>
  The options of an incremental request (lines 301 to 305). The spread \<^verbatim>\<open>...options\<close>
  comes after \<^verbatim>\<open>cursor\<close>, so a cursor in \<^verbatim>\<open>options\<close> wins.
\<close>

definition incrementalOptions :: "timelineOptions \<Rightarrow> timelineCursors \<Rightarrow> nat
                                  \<Rightarrow> timelineOptions" where
  "incrementalOptions options c defaultPageSize =
     \<lparr>cursor =
        (case cursor options of
           Some v \<Rightarrow> Some v
         | None \<Rightarrow>
             if isBefore options then map_option c_before (startCursors c)
             else (case endCursors c of
                     Some e \<Rightarrow> c_after e
                   | None \<Rightarrow> (case startCursors c of Some s \<Rightarrow> c_after s | None \<Rightarrow> None))),
      before = before options,
      limit = limitOr options defaultPageSize\<rparr>"

text \<open>The options of a reset request (lines 322 to 325), where \<^verbatim>\<open>reset\<close> is true.\<close>

definition resetOptions :: "timelineOptions \<Rightarrow> timelineCursors option \<Rightarrow> nat
                            \<Rightarrow> timelineOptions" where
  "resetOptions options c defaultPageSize =
     \<lparr>cursor = cursor options,
      before = before options,
      limit =
        (if limit options = Some (LimitNumber 0) then None
         else (case Option.bind (Option.bind c endCursors) c_after of
                 Some a \<Rightarrow> Some (LimitCursor a)
               | None \<Rightarrow> limitOr options defaultPageSize))\<rparr>"

text \<open>
  One turn of the loop of lines 287 to 338, for the source \<open>src\<close> and the resource \<open>u\<close>
  (\<^verbatim>\<open>this._uri\<close>, defined after line 259). The result is the new state and the request
  handed to \<^verbatim>\<open>handleRequest\<close>, if there is one. An argument
  \<^verbatim>\<open>new CancellationTokenSource()\<close> is evaluated before \<^verbatim>\<open>getTimeline\<close> is called.
\<close>

definition loadSource :: "timelineService \<Rightarrow> bool \<Rightarrow> timelineOptions \<Rightarrow> nat \<Rightarrow> resourceUri
                          \<Rightarrow> string \<Rightarrow> pane \<Rightarrow> pane \<times> timelineRequest option" where
  "loadSource svc reset options defaultPageSize u src st =
     (let request = map_of (pendingRequests st) src;
          curs = map_of (cursorsByProvider st) src
      in if \<not> reset
         then (case curs of
                 None \<Rightarrow> (st, None)
               | Some c \<Rightarrow>
                   if c_more c
                   then (let reusingToken = (request \<noteq> None);
                             alloc = (case request of
                                        Some r \<Rightarrow> (req_tokenSource r, st)
                                      | None \<Rightarrow> newTokenSource st);
                             t = fst alloc;
                             st1 = snd alloc
                         in case getTimeline svc src u
                                   (incrementalOptions options c defaultPageSize) t of
                              None \<Rightarrow> (st1, None)
                            | Some new \<Rightarrow>
                                (let st2 = st1\<lparr>pendingRequests :=
                                                 AList.update src new (pendingRequests st1)\<rparr>
                                 in if reusingToken then (st2, Some new)
                                    else (onCancellationRequested t src st2, Some new)))
                   else (st, None))
         else (let st1 = (case request of
                            Some r \<Rightarrow> disposeCancel (req_tokenSource r) st
                          | None \<Rightarrow> st);
                   alloc = newTokenSource st1;
                   t = fst alloc;
                   st2 = snd alloc
               in case getTimeline svc src u (resetOptions options curs defaultPageSize) t of
                    None \<Rightarrow> (st2, None)
                  | Some new \<Rightarrow>
                      (onCancellationRequested t src
                         (st2\<lparr>pendingRequests := AList.update src new (pendingRequests st2)\<rparr>),
                       Some new)))"

fun loadSources :: "timelineService \<Rightarrow> bool \<Rightarrow> timelineOptions \<Rightarrow> nat \<Rightarrow> resourceUri
                    \<Rightarrow> string list \<Rightarrow> pane \<Rightarrow> pane \<times> timelineRequest list" where
  "loadSources svc reset options defaultPageSize u [] st = (st, [])"
| "loadSources svc reset options defaultPageSize u (src # rest) st =
     (case loadSource svc reset options defaultPageSize u src st of
        (st1, issued) \<Rightarrow>
          (case loadSources svc reset options defaultPageSize u rest st1 of
             (st2, others) \<Rightarrow>
               (st2, (case issued of None \<Rightarrow> [] | Some r \<Rightarrow> [r]) @ others)))"

text \<open>
  Lines 232 to 234, \<^verbatim>\<open>for (const { tokenSource } of this._pendingRequests.values())\<close>:
  the walk over a \<^verbatim>\<open>Map\<close> skips an entry that a callback has deleted before the walk
  reaches it. The first argument is the entries still to visit.
\<close>

fun disposeAll :: "(string \<times> timelineRequest) list \<Rightarrow> pane \<Rightarrow> pane" where
  "disposeAll [] st = st"
| "disposeAll (entry # rest) st =
     (if map_of (pendingRequests st) (fst entry) = None then disposeAll rest st
      else disposeAll rest (disposeCancel (req_tokenSource (snd entry)) st))"

text \<open>Lines 232 to 236: the walk, then \<^verbatim>\<open>this._pendingRequests.clear()\<close>.\<close>

definition cancelAll :: "pane \<Rightarrow> pane" where
  "cancelAll st = (disposeAll (pendingRequests st) st)\<lparr>pendingRequests := []\<rparr>"

text \<open>
  Lines 272 to 285: a load-more entry at the end of the list starts to spin. The
  selection and focus of the tree widget (lines 279 to 284) are not part of the model.
\<close>

definition markLoading :: "element list \<Rightarrow> element list" where
  "markLoading xs =
     (let lastIndex = length xs - 1
      in if length xs \<noteq> 0 \<and> isLoadMoreCommandItem (Some (xs ! lastIndex))
         then xs[lastIndex := (xs ! lastIndex)\<lparr>themeIcon := Some ''sync~spin''\<rparr>]
         else xs)"

definition cannotProvideTimeline :: "resourceUri option \<Rightarrow> bool" where
  "cannotProvideTimeline u =
     (case u of
        None \<Rightarrow> False
      | Some r \<Rightarrow> scheme r = ''vscode-settings'' \<or> scheme r = ''webview-panel''
                  \<or> scheme r = ''walkThrough'')"

text \<open>
  \<^verbatim>\<open>loadTimeline(reset, sources, options)\<close>: the new state and the requests whose
  \<^verbatim>\<open>handleRequest\<close> was started, in the order of the loop.
\<close>

definition loadTimeline :: "timelineService \<Rightarrow> bool \<Rightarrow> string list option \<Rightarrow> timelineOptions
                            \<Rightarrow> pane \<Rightarrow> pane \<times> timelineRequest list" where
  "loadTimeline svc reset sources options st =
     (let defaultPageSize = (if reset then InitialPageSize else SubsequentPageSize);
          st1 = (if sources = None \<and> reset
                 then cancelAll (st\<lparr>items := [], cursorsByProvider := [],
                                    loadingMessageTimer := None\<rparr>)
                 else st)
      in if sources = None \<and> cannotProvideTimeline (uri st1)
         then (st1\<lparr>message :=
                     Some ''The active editor cannot provide timeline information.'',
                   treeChildren := None\<rparr>, [])
         else (let st2 = (if sources = None \<and> reset \<and> uri st1 \<noteq> None
                          then st1\<lparr>loadingMessageTimer := uri st1\<rparr> else st1)
               in case uri st2 of
                    None \<Rightarrow> (st2, [])
                  | Some u \<Rightarrow>
                      (let filteredSources =
                             filter (\<lambda>s. s \<notin> excludedSources st2)
                               (case sources of None \<Rightarrow> getSources svc | Some ss \<Rightarrow> ss)
                       in if length filteredSources = 0
                          then ((if reset then refresh st2 else st2), [])
                          else loadSources svc reset options defaultPageSize u
                                 filteredSources
                                 (st2\<lparr>items := markLoading (items st2)\<rparr>))))"

section \<open>The properties, as the specification words them\<close>

text \<open>
  The order of the merged list: an entry may stand before another when its timestamp
  is greater, or when the timestamps are equal and either the other has no source, or
  both have one and the other's name does not compare greater than this one's: the
  names in the reverse order of \<^verbatim>\<open>localeCompare\<close> with the options \<open>sortOptions\<close>,
  numeric and of sensitivity \<open>base\<close>.
\<close>

definition sortsBefore :: "comparison \<Rightarrow> element \<Rightarrow> element \<Rightarrow> bool" where
  "sortsBefore lc a b =
     (timestamp b < timestamp a \<or>
      (timestamp a = timestamp b \<and>
       (case source b of
          None \<Rightarrow> True
        | Some sb \<Rightarrow> (case source a of None \<Rightarrow> False
                     | Some sa \<Rightarrow> lc sb sa sortOptions \<le> 0))))"

definition sortedItems :: "comparison \<Rightarrow> element list \<Rightarrow> bool" where
  "sortedItems lc xs = sorted_wrt (sortsBefore lc) xs"

text \<open>No two entries of the list have the same \<^verbatim>\<open>handle\<close>.\<close>

definition uniqueHandles :: "element list \<Rightarrow> bool" where
  "uniqueHandles xs = distinct (map handle xs)"

text \<open>
  A completion is stale when its token was cancelled or the pane's resource is no
  longer the request's.
\<close>

definition staleCompletion :: "timelineRequest \<Rightarrow> pane \<Rightarrow> bool" where
  "staleCompletion request st =
     (isCancellationRequested (tokenSources st (req_tokenSource request))
      \<or> Some (uri_ref (req_uri request)) \<noteq> map_option uri_ref (uri st))"

text \<open>Some source's cursor reports more.\<close>

definition anyMore :: "(string \<times> timelineCursors) list \<Rightarrow> bool" where
  "anyMore table = (\<exists>c. c \<in> snd ` set table \<and> c_more c)"

section \<open>A pane to run the model on\<close>

text \<open>
  A file with three commits from the source \<open>git\<close> and one save from the source
  \<open>Local\<close>, at the time of the middle commit.
\<close>

definition gitNew :: element where
  "gitNew = \<lparr>handle = ''git|c3'', source = Some ''git'', timestamp = 30,
             item_id = Some ''c3'', themeIcon = None, label = ''third commit''\<rparr>"

definition gitMid :: element where
  "gitMid = \<lparr>handle = ''git|c2'', source = Some ''git'', timestamp = 20,
             item_id = Some ''c2'', themeIcon = None, label = ''second commit''\<rparr>"

definition gitOld :: element where
  "gitOld = \<lparr>handle = ''git|c1'', source = Some ''git'', timestamp = 10,
             item_id = Some ''c1'', themeIcon = None, label = ''first commit''\<rparr>"

definition localSave :: element where
  "localSave = \<lparr>handle = ''Local|20'', source = Some ''Local'', timestamp = 20,
                item_id = None, themeIcon = None, label = ''File saved''\<rparr>"

definition busyLoadMore :: element where
  "busyLoadMore = loadMoreItem\<lparr>themeIcon := Some ''sync~spin''\<rparr>"

definition exampleUri :: resourceUri where
  "exampleUri = \<lparr>uri_ref = 1, scheme = ''file''\<rparr>"

definition otherUri :: resourceUri where
  "otherUri = \<lparr>uri_ref = 2, scheme = ''file''\<rparr>"

text \<open>The options of a request for the page before the cursor \<open>c2\<close>, and after it.\<close>

definition olderOptions :: timelineOptions where
  "olderOptions = \<lparr>cursor = Some ''c2'', before = Some True, limit = Some (LimitNumber 40)\<rparr>"

definition newerOptions :: timelineOptions where
  "newerOptions = \<lparr>cursor = Some ''c2'', before = None, limit = Some (LimitNumber 40)\<rparr>"

definition noOptions :: timelineOptions where
  "noOptions = \<lparr>cursor = None, before = None, limit = None\<rparr>"

definition gitRequest :: timelineRequest where
  "gitRequest = \<lparr>req_source = ''git'', req_uri = exampleUri, req_options = olderOptions,
                 req_tokenSource = 0\<rparr>"

definition gitCursors :: timelineCursors where
  "gitCursors = \<lparr>startCursors = Some \<lparr>c_before = ''c2'', c_after = Some ''c3''\<rparr>,
                 endCursors = None, c_more = True\<rparr>"

text \<open>
  The pane after the first page of \<open>git\<close> (two commits, more to come) and a click on
  the load-more entry: the request for the older page is pending.
\<close>

definition examplePane :: pane where
  "examplePane =
     \<lparr>excludedSources = {},
      cursorsByProvider = [(''git'', gitCursors)],
      items = [gitNew, gitMid, busyLoadMore],
      loadingMessageTimer = None,
      pendingRequests = [(''git'', gitRequest)],
      uri = Some exampleUri,
      message = None,
      treeChildren = Some [gitNew, gitMid, busyLoadMore],
      refreshScheduled = False,
      tokenSources =
        (\<lambda>t. \<lparr>isCancellationRequested = False, listeners = []\<rparr>)
          (0 := \<lparr>isCancellationRequested = False, listeners = [''git'']\<rparr>),
      nextTokenSource = 1\<rparr>"

text \<open>The older page: the last commit, no more to come; and an empty last page.\<close>

definition olderPage :: timeline where
  "olderPage = \<lparr>tl_source = ''git'', tl_items = [gitOld],
                tl_paging = Some \<lparr>cursors = \<lparr>c_before = ''c1'', c_after = Some ''c1''\<rparr>,
                                  p_more = Some False\<rparr>\<rparr>"

definition emptyPage :: timeline where
  "emptyPage = \<lparr>tl_source = ''git'', tl_items = [],
                tl_paging = Some \<lparr>cursors = \<lparr>c_before = ''c2'', c_after = Some ''c2''\<rparr>,
                                  p_more = Some False\<rparr>\<rparr>"

definition exampleService :: timelineService where
  "exampleService = \<lparr>getSources = [''git'', ''Local''], hasProvider = (\<lambda>src u. True)\<rparr>"

text \<open>
  A file whose history lies before 1970, so that its timestamps are negative: one commit
  from \<open>git\<close>, with more to come, and one save from \<open>Local\<close>.
\<close>

definition gitNeg :: element where
  "gitNeg = \<lparr>handle = ''git|c0'', source = Some ''git'', timestamp = - 5,
             item_id = Some ''c0'', themeIcon = None, label = ''early commit''\<rparr>"

definition localNeg :: element where
  "localNeg = \<lparr>handle = ''Local|-7'', source = Some ''Local'', timestamp = - 7,
               item_id = None, themeIcon = None, label = ''File saved''\<rparr>"

definition gitNegPage :: timeline where
  "gitNegPage = \<lparr>tl_source = ''git'', tl_items = [gitNeg],
                 tl_paging = Some \<lparr>cursors = \<lparr>c_before = ''c0'', c_after = Some ''c0''\<rparr>,
                                   p_more = Some True\<rparr>\<rparr>"

definition localNegPage :: timeline where
  "localNegPage = \<lparr>tl_source = ''Local'', tl_items = [localNeg], tl_paging = None\<rparr>"

text \<open>The pane when the editor has just opened the file, before \<^verbatim>\<open>loadTimeline(true)\<close>.\<close>

definition startPane :: pane where
  "startPane =
     \<lparr>excludedSources = {},
      cursorsByProvider = [],
      items = [],
      loadingMessageTimer = None,
      pendingRequests = [],
      uri = Some exampleUri,
      message = None,
      treeChildren = None,
      refreshScheduled = False,
      tokenSources = (\<lambda>t. \<lparr>isCancellationRequested = False, listeners = []\<rparr>),
      nextTokenSource = 0\<rparr>"

text \<open>The two requests that \<^verbatim>\<open>loadTimeline(true)\<close> issues on that pane.\<close>

definition firstGitRequest :: timelineRequest where
  "firstGitRequest =
     \<lparr>req_source = ''git'', req_uri = exampleUri,
      req_options = \<lparr>cursor = None, before = None, limit = Some (LimitNumber 20)\<rparr>,
      req_tokenSource = 0\<rparr>"

definition firstLocalRequest :: timelineRequest where
  "firstLocalRequest =
     \<lparr>req_source = ''Local'', req_uri = exampleUri,
      req_options = \<lparr>cursor = None, before = None, limit = Some (LimitNumber 20)\<rparr>,
      req_tokenSource = 1\<rparr>"

section \<open>Lemmas on the item list\<close>

subsection \<open>The duplicate scan\<close>

text \<open>
  The incoming id set never holds \<^verbatim>\<open>undefined\<close>, and the scan asks for exactly that: its
  test is false for every entry.
\<close>

lemma incomingIds_fst: "None \<notin> fst acc \<Longrightarrow> None \<notin> fst (incomingIds new acc)"
  by (induction new acc rule: incomingIds.induct) auto

lemma incomingIds_None: "incomingIds new ({}, {}) = (ids, timestamps) \<Longrightarrow> None \<notin> ids"
  using incomingIds_fst [of "({}, {})" new] by simp

lemma isDuplicate_False: "None \<notin> ids \<Longrightarrow> \<not> isDuplicate ids timestamps item"
  by (auto simp: isDuplicate_def)

lemma removeDuplicates_id: "None \<notin> ids \<Longrightarrow> removeDuplicates n ids timestamps xs = xs"
  by (induction n arbitrary: xs) (simp_all add: isDuplicate_False)

lemma mergeItems_before:
  "new \<noteq> [] \<Longrightarrow> isBefore options \<Longrightarrow>
   mergeItems lc xs src (Some new) options = (True, sortItems lc (new @ xs))"
  by (auto simp: mergeItems_def removeDuplicates_id dest: incomingIds_None split: prod.splits)

lemma mergeItems_after:
  "new \<noteq> [] \<Longrightarrow> \<not> isBefore options \<Longrightarrow>
   mergeItems lc xs src (Some new) options = (True, sortItems lc (xs @ new))"
  by (simp add: mergeItems_def)

lemma mergeItems_empty:
  "itemsOrEmpty incoming = [] \<Longrightarrow> mergeItems lc xs src incoming options = (False, xs)"
  by (simp add: mergeItems_def itemsOrEmpty_def split: option.splits)

subsection \<open>Sorting\<close>

lemma mset_insertItem: "mset (insertItem cmp x xs) = add_mset x (mset xs)"
  by (induction xs) auto

lemma mset_sortWith: "mset (sortWith cmp xs) = mset xs"
  by (induction xs) (auto simp: mset_insertItem)

lemma mset_sortItems: "mset (sortItems lc xs) = mset xs"
  by (simp add: sortItems_def mset_sortWith)

lemma set_sortItems: "set (sortItems lc xs) = set xs"
  using mset_sortItems [of lc xs] by (metis set_mset_mset)

lemma sorted_insertItem:
  assumes "consistentComparator cmp" "sorted_wrt (\<lambda>a b. cmp a b \<le> 0) xs"
  shows "sorted_wrt (\<lambda>a b. cmp a b \<le> 0) (insertItem cmp x xs)"
  using assms(2)
proof (induction xs)
  case Nil then show ?case by simp
next
  case (Cons y ys)
  have tot: "\<And>a b. \<not> cmp a b \<le> 0 \<Longrightarrow> cmp b a \<le> 0"
    using assms(1) unfolding consistentComparator_def by (metis less_le_not_le not_le)
  have tr: "\<And>a b c. cmp a b \<le> 0 \<Longrightarrow> cmp b c \<le> 0 \<Longrightarrow> cmp a c \<le> 0"
    using assms(1) unfolding consistentComparator_def by blast
  have s: "set (insertItem cmp x ys) = insert x (set ys)"
    using mset_insertItem [of cmp x ys] by (metis set_mset_mset set_mset_add_mset_insert)
  show ?case
  proof (cases "cmp x y \<le> 0")
    case True
    with Cons.prems tr show ?thesis by auto
  next
    case False
    with Cons tot s show ?thesis by auto
  qed
qed

lemma sorted_sortWith:
  "consistentComparator cmp \<Longrightarrow> sorted_wrt (\<lambda>a b. cmp a b \<le> 0) (sortWith cmp xs)"
  by (induction xs) (auto intro: sorted_insertItem)

lemma consistent_compareItems:
  assumes "consistentComparator (\<lambda>s t. lc s t sortOptions)"
  shows "consistentComparator (compareItems lc)"
proof -
  have r: "\<And>a. lc a a sortOptions = 0"
    and s: "\<And>a b. (lc a b sortOptions < 0) = (0 < lc b a sortOptions)"
    and t: "\<And>a b c. lc a b sortOptions \<le> 0 \<Longrightarrow> lc b c sortOptions \<le> 0
              \<Longrightarrow> lc a c sortOptions \<le> 0"
    using assms unfolding consistentComparator_def by blast+
  show ?thesis
    unfolding consistentComparator_def
  proof (intro conjI allI impI)
    fix a show "compareItems lc a a = 0"
      by (simp add: compareItems_def r split: option.splits)
  next
    fix a b show "(compareItems lc a b < 0) = (0 < compareItems lc b a)"
      using s by (auto simp: compareItems_def split: option.splits)
  next
    fix a b c assume "compareItems lc a b \<le> 0 \<and> compareItems lc b c \<le> 0"
    then show "compareItems lc a c \<le> 0"
      using t by (auto simp: compareItems_def split: option.splits if_splits)
  qed
qed

lemma consistent_asciiCompare: "consistentComparator (\<lambda>s t. asciiCompare s t sortOptions)"
  unfolding consistentComparator_def asciiCompare_def by auto

lemma compareItems_sortsBefore: "(compareItems lc a b \<le> 0) = sortsBefore lc a b"
  by (auto simp: compareItems_def sortsBefore_def split: option.splits)

lemma sortedItems_sortItems:
  "consistentComparator (\<lambda>s t. lc s t sortOptions) \<Longrightarrow> sortedItems lc (sortItems lc xs)"
  using sorted_sortWith [OF consistent_compareItems, of lc xs]
  by (simp add: sortedItems_def sortItems_def compareItems_sortsBefore)

lemma sortedItems_filter: "sortedItems lc xs \<Longrightarrow> sortedItems lc (filter P xs)"
  by (simp add: sortedItems_def sorted_wrt_filter)

subsection \<open>Replacing and handles\<close>

lemma replaceItems_nonempty:
  "itemsOrEmpty incoming \<noteq> [] \<Longrightarrow>
   replaceItems lc xs src incoming =
     (True, sortItems lc (filter (\<lambda>i. source i \<noteq> Some src) xs @ itemsOrEmpty incoming))"
  by (simp add: replaceItems_def)

lemma replaceItems_empty:
  "itemsOrEmpty incoming = [] \<Longrightarrow>
   replaceItems lc xs src incoming =
     ((\<exists>i \<in> set xs. source i = Some src), filter (\<lambda>i. source i \<noteq> Some src) xs)"
  by (auto simp: replaceItems_def list_ex_iff filter_id_conv)

lemma uniqueHandles_mset: "mset xs = mset ys \<Longrightarrow> uniqueHandles xs = uniqueHandles ys"
  unfolding uniqueHandles_def by (metis mset_map mset_eq_imp_distinct_iff)

lemma uniqueHandles_append:
  "uniqueHandles (xs @ ys) =
     (uniqueHandles xs \<and> uniqueHandles ys \<and> handle ` set xs \<inter> handle ` set ys = {})"
  by (simp add: uniqueHandles_def)

lemma uniqueHandles_filter: "uniqueHandles xs \<Longrightarrow> uniqueHandles (filter P xs)"
  by (simp add: uniqueHandles_def distinct_map_filter)

text \<open>The definitions a run of the model on the example pane unfolds.\<close>

lemmas example_items = gitNew_def gitMid_def gitOld_def loadMoreItem_def

lemmas run_sort = sortItems_def compareItems_def asciiCompare_def isDigit_def lowerCode_def


section \<open>The claims on the item list\<close>

text \<open>
  C10. A call of \<^verbatim>\<open>mergeItems\<close> with \<^verbatim>\<open>undefined\<close> or with an empty array returns
  \<^verbatim>\<open>false\<close> and leaves the merged list as it was: nothing is removed, nothing is
  inserted, nothing is sorted.
\<close>

theorem mergeItems_empty_unchanged:
  "mergeItems lc xs src None options = (False, xs) \<and>
   mergeItems lc xs src (Some []) options = (False, xs)"
  by (simp add: mergeItems_empty itemsOrEmpty_def)

text \<open>An instance of C10: an empty older page for a list of two commits.\<close>

theorem mergeItems_empty_unchanged_witness:
  "mergeItems asciiCompare [gitNew, gitMid] ''git'' (Some []) olderOptions
     = (False, [gitNew, gitMid])"
  using mergeItems_empty_unchanged [of asciiCompare "[gitNew, gitMid]" "''git''" olderOptions]
  by simp

text \<open>
  C8. \<^verbatim>\<open>replaceItems(source, items)\<close> leaves the entries of the other sources together
  with the new items, so every earlier entry of \<^verbatim>\<open>source\<close> is gone; it returns \<^verbatim>\<open>true\<close>
  exactly when the new items are not empty or an entry of \<^verbatim>\<open>source\<close> was there to
  remove. With no new items the list is the old one without the entries of \<^verbatim>\<open>source\<close>.
\<close>

theorem replaceItems_removes_source:
  "mset (snd (replaceItems lc xs src incoming)) =
     mset (filter (\<lambda>i. source i \<noteq> Some src) xs) + mset (itemsOrEmpty incoming)
   \<and> fst (replaceItems lc xs src incoming) =
       (itemsOrEmpty incoming \<noteq> [] \<or> (\<exists>i \<in> set xs. source i = Some src))
   \<and> (itemsOrEmpty incoming = [] \<longrightarrow>
        snd (replaceItems lc xs src incoming) = filter (\<lambda>i. source i \<noteq> Some src) xs)"
proof (cases "itemsOrEmpty incoming = []")
  case True
  then show ?thesis by (simp add: replaceItems_empty)
next
  case False
  then show ?thesis by (simp add: replaceItems_nonempty mset_sortItems)
qed

text \<open>
  An instance of C8: the provider \<open>git\<close> goes away (\<^verbatim>\<open>replaceItems(source)\<close> at line
  165); its two commits vanish and the call returns \<^verbatim>\<open>true\<close>.
\<close>

theorem replaceItems_removes_source_witness:
  "replaceItems asciiCompare [gitNew, localSave, gitMid, loadMoreItem] ''git'' None
     = (True, [localSave, loadMoreItem])"
proof -
  have "filter (\<lambda>i. source i \<noteq> Some ''git'') [gitNew, localSave, gitMid, loadMoreItem]
          = [localSave, loadMoreItem]"
    by (simp add: example_items localSave_def)
  moreover have "\<exists>i \<in> set [gitNew, localSave, gitMid, loadMoreItem]. source i = Some ''git''"
    by (simp add: example_items)
  ultimately show ?thesis
    using replaceItems_removes_source
      [of asciiCompare "[gitNew, localSave, gitMid, loadMoreItem]" "''git''" None]
    by (simp add: itemsOrEmpty_def prod_eq_iff)
qed

text \<open>
  C1, on the code: the older page \<open>[gitMid, gitOld]\<close> comes in while \<open>gitMid\<close>, with the
  same \<^verbatim>\<open>id\<close>, is among the first forty entries. The scan of lines 461 to 471 removes
  nothing, and the merged list holds \<open>gitMid\<close> twice.
\<close>

theorem mergeItems_keeps_duplicate:
  "mergeItems asciiCompare [gitNew, gitMid] ''git'' (Some [gitMid, gitOld]) olderOptions
     = (True, [gitNew, gitMid, gitMid, gitOld])"
  by (simp add: mergeItems_before isBefore_def olderOptions_def example_items run_sort)

text \<open>
  C5, as amended. Let the platform's \<^verbatim>\<open>localeCompare\<close>, called with the options
  \<^verbatim>\<open>{ numeric: true, sensitivity: 'base' }\<close>, be a consistent comparator. After a
  \<^verbatim>\<open>mergeItems\<close> or a \<^verbatim>\<open>replaceItems\<close> that inserts items the list is in order:
  timestamps descend; among equal timestamps an entry without a source comes after the
  entries with one, and the entries with sources stand in the reverse order of that
  comparison of their names. A call that inserts nothing does not sort: the list is in
  order after it when it was in order before it.
\<close>

theorem merge_replace_sorted:
  assumes "consistentComparator (\<lambda>s t. lc s t sortOptions)"
  shows "(sortedItems lc xs \<or> fst (mergeItems lc xs src incoming options)
            \<longrightarrow> sortedItems lc (snd (mergeItems lc xs src incoming options)))
       \<and> (sortedItems lc xs \<or> itemsOrEmpty incoming \<noteq> []
            \<longrightarrow> sortedItems lc (snd (replaceItems lc xs src incoming)))"
proof (intro conjI impI)
  assume h: "sortedItems lc xs \<or> fst (mergeItems lc xs src incoming options)"
  show "sortedItems lc (snd (mergeItems lc xs src incoming options))"
  proof (cases "itemsOrEmpty incoming = []")
    case True
    with h show ?thesis by (simp add: mergeItems_empty)
  next
    case False
    then obtain new where n: "incoming = Some new" "new \<noteq> []"
      by (auto simp: itemsOrEmpty_def split: option.splits)
    show ?thesis
      using n assms by (cases "isBefore options")
        (simp_all add: mergeItems_before mergeItems_after sortedItems_sortItems)
  qed
next
  assume h: "sortedItems lc xs \<or> itemsOrEmpty incoming \<noteq> []"
  show "sortedItems lc (snd (replaceItems lc xs src incoming))"
  proof (cases "itemsOrEmpty incoming = []")
    case True
    with h show ?thesis by (simp add: replaceItems_empty sortedItems_filter)
  next
    case False
    with assms show ?thesis by (simp add: replaceItems_nonempty sortedItems_sortItems)
  qed
qed

text \<open>
  An instance of the amended C5 with \<open>asciiCompare\<close>: an older page merged into, and a
  full page of \<open>git\<close> replacing in, a list where a save and a commit share a timestamp.
\<close>

theorem merge_replace_sorted_witness:
  "sortedItems asciiCompare [gitNew, localSave, gitMid, loadMoreItem]
   \<and> mergeItems asciiCompare [gitNew, localSave, gitMid, loadMoreItem] ''git''
         (Some [gitOld]) olderOptions
       = (True, [gitNew, localSave, gitMid, gitOld, loadMoreItem])
   \<and> sortedItems asciiCompare [gitNew, localSave, gitMid, gitOld, loadMoreItem]
   \<and> replaceItems asciiCompare [gitNew, localSave, gitMid, loadMoreItem] ''git''
         (Some [gitOld, gitMid])
       = (True, [localSave, gitMid, gitOld, loadMoreItem])
   \<and> sortedItems asciiCompare [localSave, gitMid, gitOld, loadMoreItem]"
proof -
  have s: "sortedItems asciiCompare [gitNew, localSave, gitMid, loadMoreItem]"
    by (simp add: sortedItems_def sortsBefore_def example_items localSave_def run_sort)
  have m: "mergeItems asciiCompare [gitNew, localSave, gitMid, loadMoreItem] ''git''
             (Some [gitOld]) olderOptions
           = (True, [gitNew, localSave, gitMid, gitOld, loadMoreItem])"
    by (simp add: mergeItems_before isBefore_def olderOptions_def example_items localSave_def
        run_sort)
  have r: "replaceItems asciiCompare [gitNew, localSave, gitMid, loadMoreItem] ''git''
             (Some [gitOld, gitMid])
           = (True, [localSave, gitMid, gitOld, loadMoreItem])"
    by (simp add: replaceItems_nonempty itemsOrEmpty_def example_items localSave_def run_sort)
  show ?thesis
    using merge_replace_sorted [where lc = asciiCompare, OF consistent_asciiCompare,
        of "[gitNew, localSave, gitMid, loadMoreItem]" "''git''" "Some [gitOld]" olderOptions]
      merge_replace_sorted [where lc = asciiCompare, OF consistent_asciiCompare,
        of "[gitNew, localSave, gitMid, loadMoreItem]" "''git''" "Some [gitOld, gitMid]" olderOptions]
      s m r
    by simp
qed

text \<open>
  C6, as amended. \<^verbatim>\<open>mergeItems\<close> and \<^verbatim>\<open>replaceItems\<close> keep the handles of the list
  pairwise different when the incoming items have pairwise different handles and none
  of them is the handle of an entry that stays (for \<^verbatim>\<open>replaceItems\<close>, an entry of
  another source).
\<close>

theorem handles_unique_preserved:
  assumes "uniqueHandles xs" and "uniqueHandles new"
  shows "(handle ` set new \<inter> handle ` set xs = {}
            \<longrightarrow> uniqueHandles (snd (mergeItems lc xs src (Some new) options)))
       \<and> (handle ` set new \<inter> handle ` set (filter (\<lambda>i. source i \<noteq> Some src) xs) = {}
            \<longrightarrow> uniqueHandles (snd (replaceItems lc xs src (Some new))))"
proof (intro conjI impI)
  assume d: "handle ` set new \<inter> handle ` set xs = {}"
  show "uniqueHandles (snd (mergeItems lc xs src (Some new) options))"
  proof (cases "new = []")
    case True
    with assms show ?thesis by (simp add: mergeItems_empty itemsOrEmpty_def)
  next
    case False
    have "uniqueHandles (new @ xs)" "uniqueHandles (xs @ new)"
      using assms d by (auto simp: uniqueHandles_append)
    then have "uniqueHandles (sortItems lc (new @ xs))" "uniqueHandles (sortItems lc (xs @ new))"
      using uniqueHandles_mset [OF mset_sortItems] by blast+
    with False show ?thesis
      by (cases "isBefore options") (simp_all add: mergeItems_before mergeItems_after)
  qed
next
  let ?keep = "filter (\<lambda>i. source i \<noteq> Some src) xs"
  assume d: "handle ` set new \<inter> handle ` set ?keep = {}"
  show "uniqueHandles (snd (replaceItems lc xs src (Some new)))"
  proof (cases "new = []")
    case True
    with assms show ?thesis
      by (simp add: replaceItems_empty itemsOrEmpty_def uniqueHandles_filter)
  next
    case False
    have "uniqueHandles (?keep @ new)"
      using assms d by (auto simp: uniqueHandles_append uniqueHandles_filter)
    then have "uniqueHandles (sortItems lc (?keep @ new))"
      using uniqueHandles_mset [OF mset_sortItems] by blast
    with False show ?thesis
      by (simp add: replaceItems_nonempty itemsOrEmpty_def)
  qed
qed

text \<open>An instance of the amended C6: the older page \<open>[gitOld]\<close>, merged and replacing.\<close>

theorem handles_unique_preserved_witness:
  "uniqueHandles [gitNew, gitMid] \<and> uniqueHandles [gitOld]
   \<and> handle ` set [gitOld] \<inter> handle ` set [gitNew, gitMid] = {}
   \<and> uniqueHandles (snd (mergeItems asciiCompare [gitNew, gitMid] ''git''
                            (Some [gitOld]) olderOptions))
   \<and> uniqueHandles (snd (replaceItems asciiCompare [gitNew, gitMid] ''git'' (Some [gitOld])))"
proof -
  have a: "uniqueHandles [gitNew, gitMid]" and b: "uniqueHandles [gitOld]"
    by (simp_all add: uniqueHandles_def example_items)
  have c: "handle ` set [gitOld] \<inter> handle ` set [gitNew, gitMid] = {}"
    by (simp add: example_items)
  have d: "filter (\<lambda>i. source i \<noteq> Some ''git'') [gitNew, gitMid] = []"
    by (simp add: example_items)
  show ?thesis
    using handles_unique_preserved [OF a b, of asciiCompare "''git''" olderOptions] a b c d
    by simp
qed

text \<open>
  C6 as stated fails: a newer page that brings \<open>gitMid\<close> again is appended, and two
  entries of the merged list have the handle \<open>git|c2\<close>.
\<close>

theorem handles_unique_counterexample:
  "uniqueHandles [gitMid, gitOld]
   \<and> \<not> uniqueHandles (snd (mergeItems asciiCompare [gitMid, gitOld] ''git''
                              (Some [gitNew, gitMid]) newerOptions))"
  by (simp add: mergeItems_after isBefore_def newerOptions_def example_items run_sort
      uniqueHandles_def)

section \<open>Lemmas on requests\<close>

subsection \<open>The three ways a request settles\<close>

lemma handleRequest_rejected:
  "handleRequest lc request Rejected st =
     Thrown (st\<lparr>pendingRequests := AList.delete (req_source request) (pendingRequests st)\<rparr>)"
  by (simp add: handleRequest_def)

lemma handleRequest_undefined:
  "handleRequest lc request (Fulfilled None) st =
     Returned (st\<lparr>pendingRequests := AList.delete (req_source request) (pendingRequests st)\<rparr>)"
  by (simp add: handleRequest_def)

lemma handleRequest_stale:
  "staleCompletion request st \<Longrightarrow>
   handleRequest lc request (Fulfilled page) st =
     Returned (st\<lparr>pendingRequests := AList.delete (req_source request) (pendingRequests st)\<rparr>)"
  by (auto simp: handleRequest_def staleCompletion_def Let_def)

lemma handleRequest_fresh:
  "\<not> staleCompletion request st \<Longrightarrow>
   handleRequest lc request (Fulfilled (Some t)) st =
     applyTimeline lc request (Some t)
       (st\<lparr>pendingRequests := AList.delete (req_source request) (pendingRequests st)\<rparr>)"
  by (auto simp: handleRequest_def staleCompletion_def Let_def)

subsection \<open>What a fresh page does to the cursor table\<close>

lemma cursorsByProvider_refresh [simp]: "cursorsByProvider (refresh st) = cursorsByProvider st"
  by (simp add: refresh_def)

lemma cursorsByProvider_refreshDebounced [simp]:
  "cursorsByProvider (refreshDebounced st) = cursorsByProvider st"
  by (simp add: refreshDebounced_def)

lemma cursorsByProvider_updateLoadMore [simp]:
  "cursorsByProvider (updateLoadMore t st) = cursorsByProvider st"
  by (simp add: updateLoadMore_def Let_def)

lemma applyTimeline_cursors:
  "cursorsByProvider (paneOf (applyTimeline lc request page st)) =
     recordPaging (cursorsByProvider st) (req_source request) (req_options request) page"
  by (simp add: applyTimeline_def Let_def split: option.splits)

lemma handleRequest_fresh_cursors:
  "\<not> staleCompletion request st \<Longrightarrow>
   cursorsByProvider (paneOf (handleRequest lc request (Fulfilled (Some t)) st)) =
     recordPaging (cursorsByProvider st) (req_source request) (req_options request) (Some t)"
  by (simp add: handleRequest_fresh applyTimeline_cursors)

lemma rejected_keeps_cursors:
  "cursorsByProvider (paneOf (handleRequest lc request Rejected st)) = cursorsByProvider st"
  by (simp add: handleRequest_rejected)

lemma undefined_keeps_cursors:
  "cursorsByProvider (paneOf (handleRequest lc request (Fulfilled None) st)) = cursorsByProvider st"
  by (simp add: handleRequest_undefined)

subsection \<open>The load-more entry\<close>

lemma list_ex_anyMore: "list_ex (\<lambda>entry. c_more (snd entry)) table = anyMore table"
  by (auto simp: anyMore_def list_ex_iff)

lemma update_mem: "(k, v) \<in> set (AList.update k v al)"
  by (induction al) auto

lemma page_more_recorded:
  assumes "tl_paging t = Some p" and "p_more p = Some True"
  shows "anyMore (recordPaging table src options (Some t))"
proof -
  have m: "c_more v \<Longrightarrow> anyMore (AList.update k v table)" for k v
    using update_mem [of k v table] by (force simp: anyMore_def)
  show ?thesis
    using assms by (auto simp: recordPaging_def intro!: m split: option.splits)
qed

lemma spliceOut_last: "xs \<noteq> [] \<Longrightarrow> spliceOut (length xs - Suc 0) xs = butlast xs"
  by (simp add: spliceOut_def butlast_conv_take)

lemma items_refresh [simp]: "items (refresh st) = items st"
  by (simp add: refresh_def)

lemma items_refreshDebounced [simp]: "items (refreshDebounced st) = items st"
  by (simp add: refreshDebounced_def)

lemma pendingRequests_updateLoadMore [simp]:
  "pendingRequests (updateLoadMore t st) = pendingRequests st"
  by (simp add: updateLoadMore_def Let_def)

lemma updateLoadMore_condition:
  "((case tl_paging t of None \<Rightarrow> False | Some p \<Rightarrow> p_more p = Some True)
     \<or> list_ex (\<lambda>entry. c_more (snd entry)) (recordPaging table src options (Some t)))
   = anyMore (recordPaging table src options (Some t))"
  by (auto simp: list_ex_anyMore page_more_recorded split: option.splits)

lemma updateLoadMore_more:
  assumes "items st \<noteq> []"
    and "(case tl_paging t of None \<Rightarrow> False | Some p \<Rightarrow> p_more p = Some True)
         \<or> list_ex (\<lambda>entry. c_more (snd entry)) (cursorsByProvider st)"
  shows "items (updateLoadMore t st) \<noteq> []
       \<and> isLoadMoreCommandItem (Some (last (items (updateLoadMore t st))))
       \<and> themeIcon (last (items (updateLoadMore t st))) = None"
proof (cases "isLoadMoreCommandItem (Some (items st ! (length (items st) - 1)))")
  case True
  have "last ((items st)[length (items st) - 1 := e]) = e" for e
    using assms(1) by (simp add: last_list_update)
  with True assms show ?thesis
    by (simp add: updateLoadMore_def Let_def isLoadMoreCommandItem_def)
next
  case False
  with assms show ?thesis
    by (simp add: updateLoadMore_def Let_def isLoadMoreCommandItem_def loadMoreItem_def)
qed

lemma updateLoadMore_no_more:
  assumes "items st \<noteq> []"
    and "\<not> ((case tl_paging t of None \<Rightarrow> False | Some p \<Rightarrow> p_more p = Some True)
         \<or> list_ex (\<lambda>entry. c_more (snd entry)) (cursorsByProvider st))"
    and "isLoadMoreCommandItem (Some (last (items st)))"
  shows "items (updateLoadMore t st) = butlast (items st)"
  using assms by (simp add: updateLoadMore_def Let_def last_conv_nth spliceOut_last)

lemma applyTimeline_settle:
  assumes "pendingRequests st = []"
    and "applyItems lc request (tl_items t) (items st) = (True, xs)"
    and "xs \<noteq> []"
  shows "items (paneOf (applyTimeline lc request (Some t) st)) =
           items (updateLoadMore t
             (st\<lparr>cursorsByProvider :=
                   recordPaging (cursorsByProvider st) (req_source request)
                     (req_options request) (Some t),
                 items := xs\<rparr>))"
  using assms by (simp add: applyTimeline_def Let_def)

subsection \<open>The table of pending requests\<close>

text \<open>
  The keys of the table stay pairwise different under every method that writes it, as
  the keys of a \<^verbatim>\<open>Map\<close> do.
\<close>

lemma distinct_fold_delete:
  "distinct (map fst al) \<Longrightarrow> distinct (map fst (fold AList.delete ks al))"
  by (induction ks arbitrary: al) (simp_all add: distinct_delete)

lemma disposeCancel_cancelled:
  "isCancellationRequested (tokenSources (disposeCancel t st) t)"
  by (simp add: disposeCancel_def)

lemma disposeCancel_distinct:
  "distinct (map fst (pendingRequests st)) \<Longrightarrow>
   distinct (map fst (pendingRequests (disposeCancel t st)))"
  by (simp add: disposeCancel_def distinct_fold_delete)

lemma disposeCancel_next [simp]: "nextTokenSource (disposeCancel t st) = nextTokenSource st"
  by (simp add: disposeCancel_def)

lemma loadSource_reset:
  assumes "hasProvider svc src u" and "map_of (pendingRequests st) src = Some old"
  shows "loadSource svc True options n u src st =
           (let st1 = disposeCancel (req_tokenSource old) st;
                t = nextTokenSource st;
                new = \<lparr>req_source = src, req_uri = u,
                       req_options = resetOptions options (map_of (cursorsByProvider st) src) n,
                       req_tokenSource = t\<rparr>
            in (onCancellationRequested t src
                  ((snd (newTokenSource st1))
                     \<lparr>pendingRequests := AList.update src new (pendingRequests st1)\<rparr>),
                Some new))"
  using assms
  by (simp add: loadSource_def Let_def getTimeline_def newTokenSource_def)

lemma loadSource_incremental:
  assumes "hasProvider svc src u" and "map_of (pendingRequests st) src = Some old"
    and "map_of (cursorsByProvider st) src = Some c" and "c_more c"
  shows "loadSource svc False options n u src st =
           (let new = \<lparr>req_source = src, req_uri = u,
                       req_options = incrementalOptions options c n,
                       req_tokenSource = req_tokenSource old\<rparr>
            in (st\<lparr>pendingRequests := AList.update src new (pendingRequests st)\<rparr>, Some new))"
  using assms
  by (simp add: loadSource_def Let_def getTimeline_def)

lemma loadSource_distinct:
  assumes "distinct (map fst (pendingRequests st))"
  shows "distinct (map fst (pendingRequests (fst (loadSource svc reset options n u src st))))"
proof (cases reset)
  case True
  have "distinct (map fst (pendingRequests
          (case map_of (pendingRequests st) src of
             Some r \<Rightarrow> disposeCancel (req_tokenSource r) st | None \<Rightarrow> st)))"
    using assms by (simp add: disposeCancel_distinct split: option.splits)
  with True show ?thesis
    by (simp add: loadSource_def Let_def newTokenSource_def onCancellationRequested_def
        distinct_update split: option.splits)
next
  case False
  with assms show ?thesis
    by (simp add: loadSource_def Let_def newTokenSource_def onCancellationRequested_def
        distinct_update split: option.splits)
qed

lemma loadSources_distinct:
  "distinct (map fst (pendingRequests st)) \<Longrightarrow>
   distinct (map fst (pendingRequests (fst (loadSources svc reset options n u srcs st))))"
proof (induction srcs arbitrary: st)
  case Nil
  then show ?case by simp
next
  case (Cons src rest)
  from Cons.IH [OF loadSource_distinct [OF Cons.prems, of svc reset options n u src]]
  show ?case by (auto split: prod.splits)
qed

lemma loadTimeline_distinct:
  assumes "distinct (map fst (pendingRequests st))"
  shows "distinct (map fst (pendingRequests (fst (loadTimeline svc reset sources options st))))"
proof -
  have r: "pendingRequests (refresh s) = pendingRequests s" for s
    by (simp add: refresh_def)
  show ?thesis
    using assms
    by (auto simp: loadTimeline_def Let_def cancelAll_def r intro!: loadSources_distinct
        split: option.splits)
qed

lemma handleRequest_distinct:
  assumes "distinct (map fst (pendingRequests st))"
  shows "distinct (map fst (pendingRequests (paneOf (handleRequest lc request result st))))"
proof -
  have r: "pendingRequests (refresh s) = pendingRequests s"
    and d: "pendingRequests (refreshDebounced s) = pendingRequests s" for s
    by (simp_all add: refresh_def refreshDebounced_def)
  have a: "pendingRequests (paneOf (applyTimeline lc request page s)) = pendingRequests s"
    for page s
    by (simp add: applyTimeline_def Let_def r d split: option.splits)
  show ?thesis
    using assms
    by (cases result) (simp_all add: handleRequest_def Let_def a distinct_delete)
qed

text \<open>More definitions a run on the example pane unfolds.\<close>

lemmas example_pane = examplePane_def gitRequest_def gitCursors_def exampleUri_def
  olderOptions_def busyLoadMore_def olderPage_def

section \<open>The claims on requests and cursors\<close>

text \<open>
  C9. A page with paging information, arriving fresh, is recorded under its source.
  The first page of a source sets \<^verbatim>\<open>startCursors\<close> to the page's cursors and \<^verbatim>\<open>more\<close> to
  the page's flag, \<^verbatim>\<open>false\<close> when the page has none. A later page of a request in the
  before direction fills \<^verbatim>\<open>endCursors\<close> from the earlier \<^verbatim>\<open>startCursors\<close> if it was
  unset and sets \<^verbatim>\<open>startCursors\<close> to the page's cursors; a later page of any other
  request fills \<^verbatim>\<open>startCursors\<close> if it was unset and sets \<^verbatim>\<open>endCursors\<close> to the page's
  cursors; on a later page \<^verbatim>\<open>more\<close> is the page's flag, \<^verbatim>\<open>true\<close> when the page has none.
  The entries of the other sources stay.
\<close>

theorem handleRequest_records_page:
  assumes "\<not> staleCompletion request st" and "tl_paging t = Some p"
  shows "(map_of (cursorsByProvider st) (tl_source t) = None \<longrightarrow>
            map_of (cursorsByProvider (paneOf (handleRequest lc request (Fulfilled (Some t)) st)))
              (tl_source t)
            = Some \<lparr>startCursors = Some (cursors p), endCursors = None,
                    c_more = (case p_more p of None \<Rightarrow> False | Some m \<Rightarrow> m)\<rparr>)
       \<and> (\<forall>c. map_of (cursorsByProvider st) (tl_source t) = Some c
                \<and> isBefore (req_options request) \<longrightarrow>
            map_of (cursorsByProvider (paneOf (handleRequest lc request (Fulfilled (Some t)) st)))
              (tl_source t)
            = Some \<lparr>startCursors = Some (cursors p),
                    endCursors = (case endCursors c of None \<Rightarrow> startCursors c
                                  | Some e \<Rightarrow> Some e),
                    c_more = (case p_more p of None \<Rightarrow> True | Some m \<Rightarrow> m)\<rparr>)
       \<and> (\<forall>c. map_of (cursorsByProvider st) (tl_source t) = Some c
                \<and> \<not> isBefore (req_options request) \<longrightarrow>
            map_of (cursorsByProvider (paneOf (handleRequest lc request (Fulfilled (Some t)) st)))
              (tl_source t)
            = Some \<lparr>startCursors = (case startCursors c of None \<Rightarrow> Some (cursors p)
                                    | Some s \<Rightarrow> Some s),
                    endCursors = Some (cursors p),
                    c_more = (case p_more p of None \<Rightarrow> True | Some m \<Rightarrow> m)\<rparr>)
       \<and> (\<forall>s. s \<noteq> tl_source t \<longrightarrow>
            map_of (cursorsByProvider (paneOf (handleRequest lc request (Fulfilled (Some t)) st))) s
            = map_of (cursorsByProvider st) s)"
  using assms
  by (auto simp: handleRequest_fresh_cursors recordPaging_def update_conv'
      split: option.splits)

text \<open>
  An instance of C9: the older page of \<open>git\<close> arrives; the earlier start cursors become
  the end cursors.
\<close>

theorem handleRequest_records_page_witness:
  "\<not> staleCompletion gitRequest examplePane
   \<and> map_of (cursorsByProvider examplePane) ''git'' = Some gitCursors
   \<and> map_of (cursorsByProvider
        (paneOf (handleRequest asciiCompare gitRequest (Fulfilled (Some olderPage))
                   examplePane))) ''git''
     = Some \<lparr>startCursors = Some \<lparr>c_before = ''c1'', c_after = Some ''c1''\<rparr>,
             endCursors = Some \<lparr>c_before = ''c2'', c_after = Some ''c3''\<rparr>,
             c_more = False\<rparr>"
proof -
  have f: "\<not> staleCompletion gitRequest examplePane"
    by (simp add: staleCompletion_def example_pane)
  have p: "tl_paging olderPage
             = Some \<lparr>cursors = \<lparr>c_before = ''c1'', c_after = Some ''c1''\<rparr>, p_more = Some False\<rparr>"
    by (simp add: olderPage_def)
  have c: "map_of (cursorsByProvider examplePane) (tl_source olderPage) = Some gitCursors"
    by (simp add: examplePane_def olderPage_def)
  have b: "isBefore (req_options gitRequest)"
    by (simp add: isBefore_def gitRequest_def olderOptions_def)
  show ?thesis
    using handleRequest_records_page [OF f p, of asciiCompare] f c b
    by (simp add: olderPage_def gitCursors_def)
qed

text \<open>
  C4. A result that arrives after its token was cancelled, or after the pane's resource
  stopped being the request's, is dropped: the merged list, the cursor table, the
  message and the tree stay as they were.
\<close>

theorem stale_completion_discarded:
  assumes "staleCompletion request st"
  shows "items (paneOf (handleRequest lc request (Fulfilled page) st)) = items st
       \<and> cursorsByProvider (paneOf (handleRequest lc request (Fulfilled page) st))
           = cursorsByProvider st
       \<and> message (paneOf (handleRequest lc request (Fulfilled page) st)) = message st
       \<and> treeChildren (paneOf (handleRequest lc request (Fulfilled page) st)) = treeChildren st"
  using assms by (simp add: handleRequest_stale)

text \<open>
  An instance of C4: the older page of \<open>git\<close> arrives after the editor moved to another
  resource.
\<close>

theorem stale_completion_discarded_witness:
  "staleCompletion gitRequest (examplePane\<lparr>uri := Some otherUri\<rparr>)
   \<and> items (paneOf (handleRequest asciiCompare gitRequest (Fulfilled (Some olderPage))
                      (examplePane\<lparr>uri := Some otherUri\<rparr>)))
       = [gitNew, gitMid, busyLoadMore]
   \<and> cursorsByProvider (paneOf (handleRequest asciiCompare gitRequest
                                  (Fulfilled (Some olderPage))
                                  (examplePane\<lparr>uri := Some otherUri\<rparr>)))
       = [(''git'', gitCursors)]
   \<and> message (paneOf (handleRequest asciiCompare gitRequest (Fulfilled (Some olderPage))
                        (examplePane\<lparr>uri := Some otherUri\<rparr>)))
       = None"
proof -
  have s: "staleCompletion gitRequest (examplePane\<lparr>uri := Some otherUri\<rparr>)"
    by (simp add: staleCompletion_def example_pane otherUri_def)
  show ?thesis
    using stale_completion_discarded [OF s, of asciiCompare "Some olderPage"] s
    by (simp add: examplePane_def)
qed

text \<open>
  C2, on the code: the fetch of \<open>git\<close> resolves to \<^verbatim>\<open>undefined\<close> while the cursor
  table has an entry for \<open>git\<close>. The guard of line 351 returns before the
  \<^verbatim>\<open>delete\<close> of line 385 is reached, and the entry is still there.
\<close>

theorem undefined_result_keeps_cursor:
  "map_of (cursorsByProvider examplePane) ''git'' = Some gitCursors
   \<and> map_of (cursorsByProvider
        (paneOf (handleRequest asciiCompare gitRequest (Fulfilled None) examplePane))) ''git''
     = Some gitCursors"
  by (simp add: handleRequest_undefined examplePane_def)

text \<open>
  The path of \<^verbatim>\<open>handleRequest\<close> that changes the list does what C7 says. When the
  last pending request brings a fresh page that changes the list and the list is not
  empty: if some cursor reports more, the last entry is the load-more entry and it is
  not busy; if none does and the last entry is the load-more entry, it is removed.
\<close>

lemma settle_load_more:
  assumes "\<not> staleCompletion request st"
    and "AList.delete (req_source request) (pendingRequests st) = []"
    and "applyItems lc request (tl_items t) (items st) = (True, xs)"
    and "xs \<noteq> []"
  shows "(anyMore (cursorsByProvider
                     (paneOf (handleRequest lc request (Fulfilled (Some t)) st))) \<longrightarrow>
            items (paneOf (handleRequest lc request (Fulfilled (Some t)) st)) \<noteq> []
            \<and> isLoadMoreCommandItem
                (Some (last (items (paneOf (handleRequest lc request (Fulfilled (Some t)) st)))))
            \<and> themeIcon (last (items (paneOf (handleRequest lc request (Fulfilled (Some t)) st))))
                = None)
       \<and> (\<not> anyMore (cursorsByProvider
                        (paneOf (handleRequest lc request (Fulfilled (Some t)) st)))
            \<and> isLoadMoreCommandItem (Some (last xs)) \<longrightarrow>
            items (paneOf (handleRequest lc request (Fulfilled (Some t)) st)) = butlast xs)"
proof -
  let ?table = "recordPaging (cursorsByProvider st) (req_source request)
                  (req_options request) (Some t)"
  let ?st2 = "st\<lparr>pendingRequests := AList.delete (req_source request) (pendingRequests st),
                  cursorsByProvider := ?table, items := xs\<rparr>"
  have c: "cursorsByProvider (paneOf (handleRequest lc request (Fulfilled (Some t)) st)) = ?table"
    using assms(1) by (rule handleRequest_fresh_cursors)
  have i: "items (paneOf (handleRequest lc request (Fulfilled (Some t)) st))
             = items (updateLoadMore t ?st2)"
    using assms by (simp add: handleRequest_fresh applyTimeline_settle)
  have cond: "((case tl_paging t of None \<Rightarrow> False | Some p \<Rightarrow> p_more p = Some True)
               \<or> list_ex (\<lambda>entry. c_more (snd entry)) (cursorsByProvider ?st2))
              = anyMore ?table"
    using updateLoadMore_condition [of t "cursorsByProvider st" "req_source request"
        "req_options request"] by simp
  have x: "items ?st2 \<noteq> []" "items ?st2 = xs"
    using assms(4) by simp_all
  show ?thesis
    unfolding c i
    using updateLoadMore_more [of ?st2 t] updateLoadMore_no_more [of ?st2 t] cond x
    by auto
qed

text \<open>On the example pane: the last commit arrives and the load-more entry goes.\<close>

lemma settle_load_more_example:
  "\<not> staleCompletion gitRequest examplePane
   \<and> AList.delete (req_source gitRequest) (pendingRequests examplePane) = []
   \<and> applyItems asciiCompare gitRequest (tl_items olderPage) (items examplePane)
       = (True, [gitNew, gitMid, gitOld, busyLoadMore])
   \<and> \<not> anyMore (cursorsByProvider (paneOf (handleRequest asciiCompare gitRequest
                                              (Fulfilled (Some olderPage)) examplePane)))
   \<and> items (paneOf (handleRequest asciiCompare gitRequest
                      (Fulfilled (Some olderPage)) examplePane))
       = [gitNew, gitMid, gitOld]"
proof -
  have f: "\<not> staleCompletion gitRequest examplePane"
    by (simp add: staleCompletion_def example_pane)
  have l: "AList.delete (req_source gitRequest) (pendingRequests examplePane) = []"
    by (simp add: AList.delete_eq example_pane)
  have a: "applyItems asciiCompare gitRequest (tl_items olderPage) (items examplePane)
             = (True, [gitNew, gitMid, gitOld, busyLoadMore])"
    by (simp add: applyItems_def truthy_def mergeItems_before isBefore_def example_pane
        example_items run_sort)
  have n: "\<not> anyMore (cursorsByProvider (paneOf (handleRequest asciiCompare gitRequest
                                              (Fulfilled (Some olderPage)) examplePane)))"
    unfolding handleRequest_fresh_cursors [OF f]
    by (simp add: recordPaging_def anyMore_def isBefore_def example_pane)
  have s: "isLoadMoreCommandItem (Some (last [gitNew, gitMid, gitOld, busyLoadMore]))"
    by (simp add: isLoadMoreCommandItem_def busyLoadMore_def loadMoreItem_def)
  show ?thesis
    using settle_load_more [OF f l a] f l a n s by simp
qed

text \<open>
  C7, on the code: the last pending request brings an empty page that says there is no
  more. \<^verbatim>\<open>mergeItems\<close> returns \<^verbatim>\<open>false\<close>, line 404 returns, and lines 407 to 430 are
  not reached: no request is pending, no cursor reports more, the list is not empty,
  and the load-more entry is still there, still busy.
\<close>

theorem settle_keeps_busy_sentinel:
  "\<not> staleCompletion gitRequest examplePane
   \<and> pendingRequests (paneOf (handleRequest asciiCompare gitRequest
                                (Fulfilled (Some emptyPage)) examplePane)) = []
   \<and> \<not> anyMore (cursorsByProvider (paneOf (handleRequest asciiCompare gitRequest
                                              (Fulfilled (Some emptyPage)) examplePane)))
   \<and> items (paneOf (handleRequest asciiCompare gitRequest
                      (Fulfilled (Some emptyPage)) examplePane))
       = [gitNew, gitMid, busyLoadMore]"
  by (simp add: handleRequest_def applyTimeline_def applyItems_def truthy_def
      mergeItems_def recordPaging_def isBefore_def anyMore_def staleCompletion_def
      AList.delete_eq example_pane emptyPage_def Let_def)

text \<open>
  C3, as amended. The table holds one request per source. When a source with a pending
  request is loaded again and the service answers with a request: a reset load cancels
  the token of the earlier request and stores the new request, which has a token of its
  own; an incremental load of a source whose cursor reports more stores the new
  request with the token source of the earlier one, and cancels nothing.
\<close>

theorem loadSource_replaces_pending:
  assumes "hasProvider svc src u"
    and "map_of (pendingRequests st) src = Some old"
    and "req_tokenSource old < nextTokenSource st"
    and "distinct (map fst (pendingRequests st))"
  shows "(\<exists>st' new. loadSource svc True options n u src st = (st', Some new)
            \<and> map_of (pendingRequests st') src = Some new
            \<and> distinct (map fst (pendingRequests st'))
            \<and> req_tokenSource new \<noteq> req_tokenSource old
            \<and> isCancellationRequested (tokenSources st' (req_tokenSource old))
            \<and> \<not> isCancellationRequested (tokenSources st' (req_tokenSource new)))
       \<and> ((\<exists>c. map_of (cursorsByProvider st) src = Some c \<and> c_more c) \<longrightarrow>
          (\<exists>st' new. loadSource svc False options n u src st = (st', Some new)
            \<and> map_of (pendingRequests st') src = Some new
            \<and> distinct (map fst (pendingRequests st'))
            \<and> req_tokenSource new = req_tokenSource old
            \<and> tokenSources st' = tokenSources st))"
proof (intro conjI impI)
  show "\<exists>st' new. loadSource svc True options n u src st = (st', Some new)
            \<and> map_of (pendingRequests st') src = Some new
            \<and> distinct (map fst (pendingRequests st'))
            \<and> req_tokenSource new \<noteq> req_tokenSource old
            \<and> isCancellationRequested (tokenSources st' (req_tokenSource old))
            \<and> \<not> isCancellationRequested (tokenSources st' (req_tokenSource new))"
    using assms(3) disposeCancel_distinct [OF assms(4), of "req_tokenSource old"]
      disposeCancel_cancelled [of "req_tokenSource old" st]
    by (simp add: loadSource_reset [OF assms(1,2)] Let_def onCancellationRequested_def
        newTokenSource_def update_conv' distinct_update)
next
  assume "\<exists>c. map_of (cursorsByProvider st) src = Some c \<and> c_more c"
  then obtain c where c: "map_of (cursorsByProvider st) src = Some c" "c_more c" by blast
  show "\<exists>st' new. loadSource svc False options n u src st = (st', Some new)
            \<and> map_of (pendingRequests st') src = Some new
            \<and> distinct (map fst (pendingRequests st'))
            \<and> req_tokenSource new = req_tokenSource old
            \<and> tokenSources st' = tokenSources st"
    using assms(4)
    by (simp add: loadSource_incremental [OF assms(1,2) c] Let_def update_conv' distinct_update)
qed

text \<open>An instance of the amended C3: \<open>git\<close> is loaded again while its request is pending.\<close>

theorem loadSource_replaces_pending_witness:
  "hasProvider exampleService ''git'' exampleUri
   \<and> map_of (pendingRequests examplePane) ''git'' = Some gitRequest
   \<and> req_tokenSource gitRequest < nextTokenSource examplePane
   \<and> distinct (map fst (pendingRequests examplePane))
   \<and> snd (loadSource exampleService True noOptions InitialPageSize exampleUri ''git''
             examplePane)
       = Some \<lparr>req_source = ''git'', req_uri = exampleUri,
               req_options = \<lparr>cursor = None, before = None,
                               limit = Some (LimitNumber 20)\<rparr>,
               req_tokenSource = 1\<rparr>
   \<and> isCancellationRequested
        (tokenSources (fst (loadSource exampleService True noOptions InitialPageSize
                              exampleUri ''git'' examplePane)) 0)
   \<and> map_of (cursorsByProvider examplePane) ''git'' = Some gitCursors
   \<and> c_more gitCursors
   \<and> snd (loadSource exampleService False noOptions SubsequentPageSize exampleUri ''git''
             examplePane)
       = Some \<lparr>req_source = ''git'', req_uri = exampleUri,
               req_options = \<lparr>cursor = Some ''c3'', before = None,
                               limit = Some (LimitNumber 40)\<rparr>,
               req_tokenSource = 0\<rparr>
   \<and> tokenSources (fst (loadSource exampleService False noOptions SubsequentPageSize
                           exampleUri ''git'' examplePane))
       = tokenSources examplePane"
proof -
  have a: "hasProvider exampleService ''git'' exampleUri"
    by (simp add: exampleService_def)
  have b: "map_of (pendingRequests examplePane) ''git'' = Some gitRequest"
    by (simp add: examplePane_def)
  have c: "req_tokenSource gitRequest < nextTokenSource examplePane"
    by (simp add: examplePane_def gitRequest_def)
  have d: "distinct (map fst (pendingRequests examplePane))"
    by (simp add: examplePane_def)
  have e: "map_of (cursorsByProvider examplePane) ''git'' = Some gitCursors"
    and m: "c_more gitCursors"
    by (simp_all add: examplePane_def gitCursors_def)
  have t: "req_tokenSource gitRequest = 0"
    by (simp add: gitRequest_def)
  have o: "resetOptions noOptions (map_of (cursorsByProvider examplePane) ''git'') InitialPageSize
             = \<lparr>cursor = None, before = None, limit = Some (LimitNumber 20)\<rparr>"
    by (simp add: resetOptions_def limitOr_def noOptions_def InitialPageSize_def
        examplePane_def gitCursors_def)
  have i: "incrementalOptions noOptions gitCursors SubsequentPageSize
             = \<lparr>cursor = Some ''c3'', before = None, limit = Some (LimitNumber 40)\<rparr>"
    by (simp add: incrementalOptions_def limitOr_def noOptions_def SubsequentPageSize_def
        isBefore_def gitCursors_def)
  have n: "nextTokenSource examplePane = 1"
    by (simp add: examplePane_def)
  note th = loadSource_replaces_pending [OF a b c d, of noOptions]
  from th [of InitialPageSize] obtain st' new where
    l: "loadSource exampleService True noOptions InitialPageSize exampleUri ''git'' examplePane
          = (st', Some new)"
    and k: "isCancellationRequested (tokenSources st' (req_tokenSource gitRequest))"
    by blast
  from th [of SubsequentPageSize] e m obtain st'' new' where
    l': "loadSource exampleService False noOptions SubsequentPageSize exampleUri ''git''
           examplePane = (st'', Some new')"
    and k': "tokenSources st'' = tokenSources examplePane"
    by blast
  have "new = \<lparr>req_source = ''git'', req_uri = exampleUri,
               req_options = \<lparr>cursor = None, before = None, limit = Some (LimitNumber 20)\<rparr>,
               req_tokenSource = 1\<rparr>"
    using l by (simp add: loadSource_reset [OF a b] Let_def o n)
  moreover have "new' = \<lparr>req_source = ''git'', req_uri = exampleUri,
               req_options = \<lparr>cursor = Some ''c3'', before = None,
                               limit = Some (LimitNumber 40)\<rparr>,
               req_tokenSource = 0\<rparr>"
    using l' by (simp add: loadSource_incremental [OF a b e m] Let_def i t)
  ultimately show ?thesis
    using l k l' k' t a b c d e m by simp
qed

text \<open>
  C3 as stated fails: an incremental load while the request of \<open>git\<close> is pending
  issues a second request, and the token of the first is not cancelled.
\<close>

theorem incremental_load_keeps_old_request:
  "map_of (pendingRequests examplePane) ''git'' = Some gitRequest
   \<and> snd (loadTimeline exampleService False None noOptions examplePane)
       = [\<lparr>req_source = ''git'', req_uri = exampleUri,
           req_options = \<lparr>cursor = Some ''c3'', before = None,
                           limit = Some (LimitNumber 40)\<rparr>,
           req_tokenSource = 0\<rparr>]
   \<and> \<not> isCancellationRequested
         (tokenSources (fst (loadTimeline exampleService False None noOptions examplePane))
            (req_tokenSource gitRequest))"
  by (simp add: loadTimeline_def loadSource_def Let_def getTimeline_def incrementalOptions_def
      limitOr_def isBefore_def SubsequentPageSize_def cannotProvideTimeline_def markLoading_def
      isLoadMoreCommandItem_def exampleService_def noOptions_def example_pane loadMoreItem_def)

section \<open>The order of the list in a state the pane reaches\<close>

text \<open>
  The first load of the file with the early history: \<^verbatim>\<open>loadTimeline(true)\<close> issues one
  request to each source.
\<close>

lemma loadTimeline_startPane: "loadTimeline exampleService True None noOptions startPane =
  (startPane\<lparr>loadingMessageTimer := Some exampleUri,
     pendingRequests := [(''git'', firstGitRequest), (''Local'', firstLocalRequest)],
     tokenSources := (\<lambda>t. \<lparr>isCancellationRequested = False, listeners = []\<rparr>)
        (0 := \<lparr>isCancellationRequested = False, listeners = [''git'']\<rparr>,
         1 := \<lparr>isCancellationRequested = False, listeners = [''Local'']\<rparr>),
     nextTokenSource := 2\<rparr>, [firstGitRequest, firstLocalRequest])"
  by (simp add: loadTimeline_def loadSource_def Let_def getTimeline_def resetOptions_def
      limitOr_def InitialPageSize_def cannotProvideTimeline_def markLoading_def cancelAll_def
      newTokenSource_def onCancellationRequested_def
      exampleService_def noOptions_def startPane_def exampleUri_def firstGitRequest_def
      firstLocalRequest_def numeral_2_eq_2)

text \<open>
  The page of \<open>Local\<close> arrives, then the page of \<open>git\<close>, which says there is more.
  Line 416 pushes the load-more entry, of timestamp 0, behind the two entries of negative
  timestamp.
\<close>

lemma first_pages_reach:
  "items (paneOf (handleRequest asciiCompare firstGitRequest (Fulfilled (Some gitNegPage))
            (paneOf (handleRequest asciiCompare firstLocalRequest
                       (Fulfilled (Some localNegPage))
                       (fst (loadTimeline exampleService True None noOptions startPane))))))
     = [gitNeg, localNeg, loadMoreItem]"
  unfolding loadTimeline_startPane fst_conv
  by (simp add: handleRequest_def applyTimeline_def applyItems_def truthy_def
      replaceItems_def itemsOrEmpty_def recordPaging_def updateLoadMore_def
      isLoadMoreCommandItem_def refresh_def refreshDebounced_def AList.delete_eq Let_def
      startPane_def exampleUri_def firstGitRequest_def firstLocalRequest_def
      gitNegPage_def localNegPage_def gitNeg_def localNeg_def run_sort)

text \<open>
  C5 as stated fails: in that state the provider \<open>Local\<close> goes away. The call
  \<^verbatim>\<open>replaceItems('Local')\<close> of line 165 removes the save, returns \<^verbatim>\<open>true\<close> and does not
  sort (lines 494 to 497): the load-more entry, of timestamp 0, stands after the commit
  of timestamp \<open>- 5\<close>.
\<close>

theorem replace_leaves_list_unsorted:
  "snd (loadTimeline exampleService True None noOptions startPane)
     = [firstGitRequest, firstLocalRequest]
   \<and> items (paneOf (handleRequest asciiCompare firstGitRequest (Fulfilled (Some gitNegPage))
                (paneOf (handleRequest asciiCompare firstLocalRequest
                           (Fulfilled (Some localNegPage))
                           (fst (loadTimeline exampleService True None noOptions startPane))))))
       = [gitNeg, localNeg, loadMoreItem]
   \<and> replaceItems asciiCompare [gitNeg, localNeg, loadMoreItem] ''Local'' None
       = (True, [gitNeg, loadMoreItem])
   \<and> \<not> sortedItems asciiCompare [gitNeg, loadMoreItem]"
proof -
  have r: "replaceItems asciiCompare [gitNeg, localNeg, loadMoreItem] ''Local'' None
             = (True, [gitNeg, loadMoreItem])"
    by (simp add: replaceItems_def itemsOrEmpty_def gitNeg_def localNeg_def loadMoreItem_def)
  have u: "\<not> sortedItems asciiCompare [gitNeg, loadMoreItem]"
    by (simp add: sortedItems_def sortsBefore_def gitNeg_def loadMoreItem_def)
  show ?thesis
    using first_pages_reach r u by (simp add: loadTimeline_startPane)
qed

end
